theory Spec2Isabelle
  imports Complex_Main
begin

section \<open>Python primitives used by the generator\<close>

text \<open>
  Exceptions are values. An exception carries its class and the message that
  \<^verbatim>\<open>str(e)\<close> returns.
\<close>

datatype exn_class =
  IndexError | KeyError | TypeError | AttributeError | ZeroDivisionError
  | OSError | ExpatError | UnicodeEncodeError

datatype exn = Exn exn_class string

fun str_exn :: "exn \<Rightarrow> string" where
  "str_exn (Exn c m) = m"

text \<open>Sequencing of fallible steps: the first exception raised is the one that propagates.\<close>

definition bind :: "exn + 'a \<Rightarrow> ('a \<Rightarrow> exn + 'b) \<Rightarrow> exn + 'b" where
  "bind m f = (case m of Inl e \<Rightarrow> Inl e | Inr v \<Rightarrow> f v)"

text \<open>\<^verbatim>\<open>str(n)\<close> for a Python int: decimal digits, most significant first.\<close>

definition digit_char :: "nat \<Rightarrow> char" where
  "digit_char d =
     (if d = 0 then CHR ''0'' else if d = 1 then CHR ''1'' else if d = 2 then CHR ''2''
      else if d = 3 then CHR ''3'' else if d = 4 then CHR ''4'' else if d = 5 then CHR ''5''
      else if d = 6 then CHR ''6'' else if d = 7 then CHR ''7'' else if d = 8 then CHR ''8''
      else CHR ''9'')"

fun str_nat :: "nat \<Rightarrow> string" where
  "str_nat n = (if n < 10 then [digit_char n] else str_nat (n div 10) @ [digit_char (n mod 10)])"

definition str_int :: "int \<Rightarrow> string" where
  "str_int i = (if i < 0 then CHR ''-'' # str_nat (nat (- i)) else str_nat (nat i))"

text \<open>
  \<^verbatim>\<open>int(s)\<close> for a string of decimal digits, to read such a string back; the
  value of a digit is its position among the ten digits.
\<close>

definition digit_value :: "char \<Rightarrow> nat" where
  "digit_value c = length (takeWhile (\<lambda>k. k \<noteq> c) ''0123456789'')"

definition int_of_str :: "string \<Rightarrow> nat" where
  "int_of_str s = foldl (\<lambda>acc c. 10 * acc + digit_value c) 0 s"

text \<open>
  \<^verbatim>\<open>str.title()\<close> on ASCII text: a cased character that follows an uncased one
  (or starts the string) is upper-cased, every other cased character is lower-cased.
\<close>

definition ascii_lowercase :: string where
  "ascii_lowercase = ''abcdefghijklmnopqrstuvwxyz''"

definition ascii_uppercase :: string where
  "ascii_uppercase = ''ABCDEFGHIJKLMNOPQRSTUVWXYZ''"

definition is_lower :: "char \<Rightarrow> bool" where
  "is_lower c = (c \<in> set ascii_lowercase)"

definition is_upper :: "char \<Rightarrow> bool" where
  "is_upper c = (c \<in> set ascii_uppercase)"

definition to_upper :: "char \<Rightarrow> char" where
  "to_upper c =
     (case map_of (zip ascii_lowercase ascii_uppercase) c of None \<Rightarrow> c | Some u \<Rightarrow> u)"

definition to_lower :: "char \<Rightarrow> char" where
  "to_lower c =
     (case map_of (zip ascii_uppercase ascii_lowercase) c of None \<Rightarrow> c | Some l \<Rightarrow> l)"

fun title_from :: "bool \<Rightarrow> string \<Rightarrow> string" where
  "title_from previous_is_cased [] = []"
| "title_from previous_is_cased (c # cs) =
     (if is_lower c then (if previous_is_cased then c else to_upper c) # title_from True cs
      else if is_upper c then (if previous_is_cased then to_lower c else c) # title_from True cs
      else c # title_from False cs)"

definition str_title :: "string \<Rightarrow> string" where
  "str_title s = title_from False s"

text \<open>Formatting an optional string inside an f-string: \<^verbatim>\<open>None\<close> prints as the word None.\<close>

fun format_opt :: "string option \<Rightarrow> string" where
  "format_opt None = ''None''"
| "format_opt (Some s) = s"


section \<open>Data model (models/schemas.py)\<close>

subsection \<open>Enumerations\<close>

datatype DataType = INTEGER | FLOAT | STRING | DATE | DATETIME | BOOLEAN | CATEGORICAL

text \<open>The \<^verbatim>\<open>.value\<close> of each \<^verbatim>\<open>DataType\<close> member.\<close>

fun DataType_value :: "DataType \<Rightarrow> string" where
  "DataType_value INTEGER = ''integer''"
| "DataType_value FLOAT = ''float''"
| "DataType_value STRING = ''string''"
| "DataType_value DATE = ''date''"
| "DataType_value DATETIME = ''datetime''"
| "DataType_value BOOLEAN = ''boolean''"
| "DataType_value CATEGORICAL = ''categorical''"

datatype VisualizationType =
  BAR | LINE | AREA | SCATTER | PIE | HISTOGRAM | HEATMAP | TREEMAP | MAP
  | FILLED_MAP | GANTT | PACKED_BUBBLES | BOX_PLOT | BULLET_GRAPH

datatype ColorScheme =
  TABLEAU10 | TABLEAU20 | CATEGORY10 | BLUES | ORANGES | GREENS
  | RED_BLUE | ORANGE_BLUE | GREEN_ORANGE

subsection \<open>Literal types\<close>

text \<open>
  A field annotated \<^verbatim>\<open>Literal[...]\<close> holds one of the listed strings and
  nothing else; each such annotation is a datatype with the strings as its values.
\<close>

datatype column_role = Role_dimension | Role_measure | Role_attribute

datatype calc_role = Calc_dimension | Calc_measure

datatype aggregation = Agg_sum | Agg_avg | Agg_count | Agg_min | Agg_max

fun aggregation_value :: "aggregation \<Rightarrow> string" where
  "aggregation_value Agg_sum = ''sum''"
| "aggregation_value Agg_avg = ''avg''"
| "aggregation_value Agg_count = ''count''"
| "aggregation_value Agg_min = ''min''"
| "aggregation_value Agg_max = ''max''"

datatype layout_type = Layout_automatic | Layout_grid | Layout_free_form

datatype output_format = Twb | Twbx

subsection \<open>Models\<close>

text \<open>
  Each pydantic model is a record with the model's field names. Fields that the
  generator never reads and whose type is \<^verbatim>\<open>Any\<close>, a dictionary of
  \<^verbatim>\<open>Any\<close> or a timestamp are left out: \<^verbatim>\<open>sample_values\<close>,
  \<^verbatim>\<open>statistics\<close>, \<^verbatim>\<open>filters\<close>, \<^verbatim>\<open>global_filters\<close>,
  \<^verbatim>\<open>worksheet_positions\<close>, \<^verbatim>\<open>user_preferences\<close>,
  \<^verbatim>\<open>dataset_insights\<close>, the three \<^verbatim>\<open>AIRecommendation\<close> fields and
  the \<^verbatim>\<open>created_at\<close> / \<^verbatim>\<open>generated_at\<close> stamps.
\<close>

record DataColumn =
  name :: string
  data_type :: DataType
  unique_values :: int
  null_count :: int
  is_key_field :: bool
  recommended_role :: "column_role option"

record CalculatedFieldSpec =
  name :: string
  formula :: string
  data_type :: DataType
  role :: "calc_role option"

record DatasetSchema =
  name :: string
  total_rows :: int
  total_columns :: int
  columns :: "DataColumn list"
  data_quality_score :: real
  business_context :: "string option"
  calculated_fields :: "CalculatedFieldSpec list"

record KPISpecification =
  name :: string
  description :: string
  calculation :: string
  target_value :: "real option"
  format_string :: string
  priority :: int

record VisualizationSpec =
  chart_type :: VisualizationType
  title :: string
  x_axis :: "string list"
  y_axis :: "string list"
  color_field :: "string option"
  size_field :: "string option"
  color_scheme :: ColorScheme
  show_labels :: bool
  show_legend :: bool
  aggregation_type :: "aggregation option"

record WorksheetSpec =
  name :: string
  visualization :: VisualizationSpec
  kpis :: "KPISpecification list"
  description :: "string option"
  dimensions :: "(string \<times> int) list"

record DashboardLayout =
  layout_type :: layout_type
  rows :: int
  columns :: int

record DashboardSpec =
  name :: string
  description :: string
  worksheets :: "WorksheetSpec list"
  layout :: DashboardLayout
  color_scheme :: ColorScheme
  dimensions :: "(string \<times> int) list"

record TableauWorkbookSpec =
  name :: string
  description :: string
  dashboards :: "DashboardSpec list"
  data_source :: string
  version :: string
  created_by :: string

record AIAnalysisResponse =
  recommended_kpis :: "KPISpecification list"
  recommended_visualizations :: "VisualizationSpec list"
  performance_considerations :: "string list"

record GenerationRequest =
  dataset_schema :: DatasetSchema
  ai_analysis :: AIAnalysisResponse
  output_format :: output_format
  include_sample_data :: bool

record GenerationResult =
  workbook_spec :: TableauWorkbookSpec
  file_path :: string
  generation_time :: real
  warnings :: "string list"
  success :: bool
  error_message :: "string option"

record ValidationResult =
  is_valid :: bool
  errors :: "string list"
  warnings :: "string list"
  suggestions :: "string list"

subsection \<open>Construction\<close>

text \<open>
  Field defaults, as the \<^verbatim>\<open>Field(...)\<close> declarations give them.
\<close>

definition WorksheetSpec_default_dimensions :: "(string \<times> int) list" where
  "WorksheetSpec_default_dimensions = [(''width'', 800), (''height'', 600)]"

definition DashboardSpec_default_dimensions :: "(string \<times> int) list" where
  "DashboardSpec_default_dimensions = [(''width'', 1200), (''height'', 800)]"

definition DashboardLayout_default :: DashboardLayout where
  "DashboardLayout_default = \<lparr>layout_type = Layout_automatic, rows = 2, columns = 2\<rparr>"

text \<open>
  A construction that pydantic refuses raises its \<^verbatim>\<open>ValidationError\<close>; the value
  kept here is the list of field names at which validation failed (the \<^verbatim>\<open>loc\<close>
  of each entry of \<^verbatim>\<open>e.errors()\<close>). The message text is the library's and is not
  modelled.
\<close>

datatype validation_error = ValidationError "string list"

text \<open>
  A keyword argument of a constructor call: left out, or given. A field declared with a
  default takes the default when its argument is left out.
\<close>

datatype 'a argument = Omitted | Given 'a

fun argument_or_default :: "'a \<Rightarrow> 'a argument \<Rightarrow> 'a" where
  "argument_or_default dflt Omitted = dflt"
| "argument_or_default dflt (Given v) = v"

text \<open>
  Validation of \<^verbatim>\<open>VisualizationSpec.aggregation_type\<close>, declared
  \<^verbatim>\<open>Optional[Literal["sum", "avg", "count", "min", "max"]]\<close> with default
  \<^verbatim>\<open>"sum"\<close>: \<^verbatim>\<open>None\<close> and the five listed strings are accepted, any other
  string is a validation error at that field.
\<close>

fun validate_aggregation_type :: "string option \<Rightarrow> validation_error + aggregation option" where
  "validate_aggregation_type None = Inr None"
| "validate_aggregation_type (Some v) =
     (if v = ''sum'' then Inr (Some Agg_sum)
      else if v = ''avg'' then Inr (Some Agg_avg)
      else if v = ''count'' then Inr (Some Agg_count)
      else if v = ''min'' then Inr (Some Agg_min)
      else if v = ''max'' then Inr (Some Agg_max)
      else Inl (ValidationError [''aggregation_type'']))"

text \<open>
  \<^verbatim>\<open>VisualizationSpec(...)\<close>: the four required fields, then the fields that have
  a default, each as a keyword argument that may be left out. The aggregation type is
  taken as the caller writes it, a string or \<^verbatim>\<open>None\<close>; the other arguments are
  taken already typed. (\<^verbatim>\<open>filters\<close> is left out of the model.)
\<close>

definition VisualizationSpec_init ::
  "VisualizationType \<Rightarrow> string \<Rightarrow> string list \<Rightarrow> string list \<Rightarrow> string option argument
   \<Rightarrow> string option argument \<Rightarrow> ColorScheme argument \<Rightarrow> bool argument \<Rightarrow> bool argument
   \<Rightarrow> string option argument \<Rightarrow> validation_error + VisualizationSpec" where
  "VisualizationSpec_init ct t xs ys cf sf cs labels legend agg =
     (case (case agg of
              Omitted \<Rightarrow> Inr (Some Agg_sum)
            | Given v \<Rightarrow> validate_aggregation_type v) of
        Inl e \<Rightarrow> Inl e
      | Inr a \<Rightarrow>
          Inr \<lparr>chart_type = ct, title = t, x_axis = xs, y_axis = ys,
               color_field = argument_or_default None cf,
               size_field = argument_or_default None sf,
               VisualizationSpec.color_scheme = argument_or_default TABLEAU10 cs,
               show_labels = argument_or_default True labels,
               show_legend = argument_or_default True legend,
               aggregation_type = a\<rparr>)"

text \<open>
  \<^verbatim>\<open>ValidationResult(...)\<close>: four plain fields, no validator on the class, so
  construction stores what it is given.
\<close>

definition ValidationResult_init ::
  "bool \<Rightarrow> string list \<Rightarrow> string list \<Rightarrow> string list
   \<Rightarrow> validation_error + ValidationResult" where
  "ValidationResult_init v es ws ss =
     Inr \<lparr>is_valid = v, errors = es, ValidationResult.warnings = ws, suggestions = ss\<rparr>"


section \<open>Workbook generator (tableau\_engine/generator.py)\<close>

subsection \<open>Data type mapping\<close>

text \<open>
  \<^verbatim>\<open>_get_tableau_data_type\<close>: a dictionary literal looked up with
  \<^verbatim>\<open>mapping.get(data_type.value, "string")\<close>.
\<close>

definition tableau_type_mapping :: "(string \<times> string) list" where
  "tableau_type_mapping =
     [(''integer'', ''integer''),
      (''float'', ''real''),
      (''string'', ''string''),
      (''datetime'', ''datetime''),
      (''boolean'', ''boolean''),
      (''categorical'', ''string'')]"

definition mapping_get :: "(string \<times> string) list \<Rightarrow> string \<Rightarrow> string \<Rightarrow> string" where
  "mapping_get m k dflt = (case map_of m k of None \<Rightarrow> dflt | Some v \<Rightarrow> v)"

definition get_tableau_data_type :: "DataType \<Rightarrow> string" where
  "get_tableau_data_type dt =
     mapping_get tableau_type_mapping (DataType_value dt) ''string''"

subsection \<open>XML element trees\<close>

text \<open>
  An \<^verbatim>\<open>xml.etree.ElementTree.Element\<close>: tag, attributes in insertion order,
  optional text and children in order. The generator builds a tree in place with
  \<^verbatim>\<open>SubElement\<close> and \<^verbatim>\<open>set\<close>; here every function that is handed a
  parent returns the parent with the new child appended last. Each element of the source
  receives every attribute once, so an attribute list is written in the order of the
  \<^verbatim>\<open>set\<close> calls.
\<close>

datatype xml = Element (tag: string) (attrib: "(string \<times> string) list")
  (text_of: "string option") (children: "xml list")

definition get :: "xml \<Rightarrow> string \<Rightarrow> string option" where
  "get e k = map_of (attrib e) k"

definition append_child :: "xml \<Rightarrow> xml \<Rightarrow> xml" where
  "append_child parent child =
     Element (tag parent) (attrib parent) (text_of parent) (children parent @ [child])"

definition text_element :: "string \<Rightarrow> string \<Rightarrow> xml" where
  "text_element t s = Element t [] (Some s) []"

text \<open>A loop whose body may raise: it stops at the first exception.\<close>

fun for_each :: "('a \<Rightarrow> 's \<Rightarrow> exn + 's) \<Rightarrow> 'a list \<Rightarrow> 's \<Rightarrow> exn + 's" where
  "for_each body [] s = Inr s"
| "for_each body (x # xs) s = bind (body x s) (for_each body xs)"

subsection \<open>The generator object and its surroundings\<close>

text \<open>
  What a run takes from outside the two source files: the token that
  \<^verbatim>\<open>_generate_id\<close> draws from \<^verbatim>\<open>uuid4\<close>; the library serialisation
  \<^verbatim>\<open>tostring\<close> / \<^verbatim>\<open>minidom.parseString\<close> / \<^verbatim>\<open>toprettyxml\<close> (which
  raises on text that is not well-formed XML); \<^verbatim>\<open>str(Path(d))\<close>, the normal
  form of a directory name, and path joining; whether a file can be opened for writing;
  whether writing a text under a name (a file path, or the name of an archive entry)
  raises; the sample CSV text, drawn with \<^verbatim>\<open>random\<close>, or the exception its
  generation raises; and the clock.
\<close>

record world =
  uuid_token :: string
  pretty_xml :: "xml \<Rightarrow> exn + string"
  path_str :: "string \<Rightarrow> string"
  path_join :: "string \<Rightarrow> string \<Rightarrow> string"
  open_error :: "string \<Rightarrow> exn option"
  write_error :: "string \<Rightarrow> string \<Rightarrow> exn option"
  generate_sample_csv :: "DatasetSchema \<Rightarrow> exn + string"
  elapsed_seconds :: real

text \<open>
  \<^verbatim>\<open>self\<close>: the three attributes set by \<^verbatim>\<open>__init__\<close>, which keeps
  \<^verbatim>\<open>Path(output_directory)\<close>; \<^verbatim>\<open>output_directory\<close> here is that path as
  \<^verbatim>\<open>str\<close> prints it.
\<close>

record TableauWorkbookGenerator =
  output_directory :: string
  tableau_version :: string
  build_version :: string

definition TableauWorkbookGenerator_init :: "world \<Rightarrow> string \<Rightarrow> TableauWorkbookGenerator" where
  "TableauWorkbookGenerator_init w dir =
     \<lparr>output_directory = path_str w dir, tableau_version = ''2023.3'',
      build_version = ''20233.23.0322.1437''\<rparr>"

text \<open>
  The files on disk: a text file; a file that was opened for writing and whose text did
  not get written; or a ZIP archive as the list of its entries (name and content) in
  the order written. Opening a file for writing creates it. An archive whose
  \<^verbatim>\<open>with\<close> block is left by an exception is closed with the entries written
  until then.
\<close>

datatype file_content =
  TextFile string | UnfinishedFile | ZipArchive "(string \<times> string) list"

type_synonym filesystem = "string \<rightharpoonup> file_content"

definition generate_id :: "world \<Rightarrow> string" where
  "generate_id w = uuid_token w"

subsection \<open>Workbook specification\<close>

definition create_workbook_specification ::
  "TableauWorkbookGenerator \<Rightarrow> GenerationRequest \<Rightarrow> TableauWorkbookSpec" where
  "create_workbook_specification self request =
     (let sheets =
            map (\<lambda>(i, viz_spec).
                  \<lparr>WorksheetSpec.name = ''Sheet '' @ str_nat (i + 1),
                   visualization = viz_spec,
                   kpis = [],
                   WorksheetSpec.description =
                     Some (''Generated visualization: '' @ title viz_spec),
                   WorksheetSpec.dimensions = WorksheetSpec_default_dimensions\<rparr>)
                (enumerate 0 (recommended_visualizations (ai_analysis request)));
          dashboard =
            \<lparr>DashboardSpec.name = ''AI Generated Dashboard'',
             DashboardSpec.description =
               ''Automatically generated dashboard based on AI analysis'',
             worksheets = sheets,
             layout = DashboardLayout_default,
             DashboardSpec.color_scheme = TABLEAU10,
             DashboardSpec.dimensions = DashboardSpec_default_dimensions\<rparr>
      in \<lparr>TableauWorkbookSpec.name =
            DatasetSchema.name (dataset_schema request) @ ''_Dashboard'',
          TableauWorkbookSpec.description =
            ''AI-generated dashboard for '' @ DatasetSchema.name (dataset_schema request),
          dashboards = [dashboard],
          data_source = DatasetSchema.name (dataset_schema request),
          version = tableau_version self,
          created_by = ''AI Dashboard Generator''\<rparr>)"

subsection \<open>Datasource element\<close>

definition add_column_metadata :: "xml \<Rightarrow> DataColumn \<Rightarrow> nat \<Rightarrow> xml" where
  "add_column_metadata parent column ordinal =
     append_child parent
       (Element ''metadata-record'' [(''class'', ''column'')] None
          [text_element ''remote-name'' (DataColumn.name column),
           text_element ''remote-type'' (get_tableau_data_type (DataColumn.data_type column)),
           text_element ''local-name'' (''['' @ DataColumn.name column @ '']''),
           text_element ''parent-name'' (''['' @ DataColumn.name column @ '']''),
           text_element ''remote-alias'' (DataColumn.name column),
           text_element ''ordinal'' (str_nat ordinal),
           text_element ''local-type'' (get_tableau_data_type (DataColumn.data_type column)),
           text_element ''aggregation''
             (if recommended_role column = Some Role_measure then ''Sum'' else ''Count''),
           text_element ''contains-null''
             (if null_count column > 0 then ''true'' else ''false'')])"

text \<open>
  The generator reads a calculated field with \<^verbatim>\<open>calc_field['name']\<close> and
  \<^verbatim>\<open>calc_field.get('role', ...)\<close>. The entries of
  \<^verbatim>\<open>DatasetSchema.calculated_fields\<close> are \<^verbatim>\<open>CalculatedFieldSpec\<close> models;
  a pydantic model defines neither \<^verbatim>\<open>__getitem__\<close> nor a \<^verbatim>\<open>get\<close>
  method, so the subscript raises \<^verbatim>\<open>TypeError\<close> and the method call
  \<^verbatim>\<open>AttributeError\<close>, whatever the key.
\<close>

definition quoted :: "string \<Rightarrow> string" where
  "quoted s = [CHR 0x27] @ s @ [CHR 0x27]"

definition getitem :: "CalculatedFieldSpec \<Rightarrow> string \<Rightarrow> exn + 'a" where
  "getitem obj key =
     Inl (Exn TypeError (quoted ''CalculatedFieldSpec'' @ '' object is not subscriptable''))"

definition get_method :: "CalculatedFieldSpec \<Rightarrow> string \<Rightarrow> string \<Rightarrow> exn + string" where
  "get_method obj key dflt =
     Inl (Exn AttributeError
           (quoted ''CalculatedFieldSpec'' @ '' object has no attribute '' @ quoted ''get''))"

definition add_calculated_field_metadata ::
  "xml \<Rightarrow> CalculatedFieldSpec \<Rightarrow> nat \<Rightarrow> exn + xml" where
  "add_calculated_field_metadata parent calc_field ordinal =
     bind (getitem calc_field ''name'') (\<lambda>remote_name.
     bind (getitem calc_field ''data_type'') (\<lambda>remote_type.
     bind (getitem calc_field ''name'') (\<lambda>local_name.
     bind (getitem calc_field ''name'') (\<lambda>parent_name.
     bind (getitem calc_field ''name'') (\<lambda>remote_alias.
     bind (getitem calc_field ''data_type'') (\<lambda>local_type.
     bind (get_method calc_field ''role'' ''measure'') (\<lambda>role_value.
     bind (getitem calc_field ''formula'') (\<lambda>formula_value.
       Inr (append_child parent
         (Element ''metadata-record'' [(''class'', ''column'')] None
            [text_element ''remote-name'' remote_name,
             text_element ''remote-type'' (get_tableau_data_type remote_type),
             text_element ''local-name'' (''['' @ local_name @ '']''),
             text_element ''parent-name'' (''['' @ parent_name @ '']''),
             text_element ''remote-alias'' remote_alias,
             text_element ''ordinal'' (str_nat ordinal),
             text_element ''local-type'' (get_tableau_data_type local_type),
             text_element ''aggregation''
               (if role_value = ''measure'' then ''Sum'' else ''Count''),
             text_element ''contains-null'' ''false'',
             Element ''calculation''
               [(''formula'', formula_value), (''type'', ''tableau'')] None []]))))))))))"

definition column_instance :: "DataColumn \<Rightarrow> xml" where
  "column_instance column =
     Element ''column-instance''
       [(''column'', ''['' @ DataColumn.name column @ '']''),
        (''derivation'', ''None''),
        (''name'', ''['' @ DataColumn.name column @ '']''),
        (''pivot'', ''key''),
        (''type'', if recommended_role column = Some Role_dimension
                    then ''nominal'' else ''quantitative'')]
       None []"

definition add_calculated_column_instance :: "CalculatedFieldSpec \<Rightarrow> xml \<Rightarrow> exn + xml" where
  "add_calculated_column_instance calc_field instances =
     bind (getitem calc_field ''name'') (\<lambda>column_attr.
     bind (getitem calc_field ''name'') (\<lambda>name_attr.
     bind (get_method calc_field ''role'' ''dimension'') (\<lambda>role_value.
       Inr (append_child instances
         (Element ''column-instance''
            [(''column'', ''['' @ column_attr @ '']''),
             (''derivation'', ''Calculation''),
             (''name'', ''['' @ name_attr @ '']''),
             (''pivot'', ''key''),
             (''type'', if role_value = ''dimension'' then ''nominal'' else ''quantitative'')]
            None [])))))"

text \<open>
  The \<^verbatim>\<open>metadata-records\<close> element of the datasource: the loop over the columns,
  then the loop over the calculated fields.
\<close>

definition metadata_records :: "DatasetSchema \<Rightarrow> exn + xml" where
  "metadata_records schema =
     (let records0 = Element ''metadata-records'' [] None [];
          records1 = fold (\<lambda>(i, column) parent. add_column_metadata parent column i)
                       (enumerate 0 (DatasetSchema.columns schema)) records0
      in for_each
           (\<lambda>(j, calc_field) parent.
              add_calculated_field_metadata parent calc_field
                (length (DatasetSchema.columns schema) + j))
           (enumerate 0 (calculated_fields schema)) records1)"

definition column_instances :: "DatasetSchema \<Rightarrow> exn + xml" where
  "column_instances schema =
     for_each add_calculated_column_instance (calculated_fields schema)
       (Element ''column-instances'' [] None
          (map column_instance (DatasetSchema.columns schema)))"

text \<open>
  \<^verbatim>\<open>_create_datasource_element\<close> returns the datasource element; the parent with
  the datasource appended is returned beside it.
\<close>

definition create_datasource_element ::
  "TableauWorkbookGenerator \<Rightarrow> world \<Rightarrow> xml \<Rightarrow> DatasetSchema \<Rightarrow> exn + (xml \<times> xml)" where
  "create_datasource_element self w parent schema =
     (let connection =
            Element ''connection'' [(''class'', ''federated'')] None
              [Element ''named-connections'' [] None
                 [Element ''named-connection''
                    [(''caption'', DatasetSchema.name schema), (''name'', ''textscan'')]
                    None
                    [Element ''connection''
                       [(''class'', ''textscan''),
                        (''directory'', output_directory self),
                        (''filename'', DatasetSchema.name schema @ ''.csv''),
                        (''password'', []),
                        (''server'', [])]
                       None []]],
               Element ''relation''
                 [(''connection'', ''textscan''),
                  (''name'', DatasetSchema.name schema @ ''.csv''),
                  (''table'', ''['' @ DatasetSchema.name schema @ ''.csv]''),
                  (''type'', ''table'')]
                 None []]
      in bind (metadata_records schema) (\<lambda>records.
         bind (column_instances schema) (\<lambda>instances.
           let datasource =
                 Element ''datasource''
                   [(''caption'', DatasetSchema.name schema),
                    (''name'', ''federated.'' @ generate_id w),
                    (''version'', ''18.1'')]
                   None [connection, records, instances]
           in Inr (append_child parent datasource, datasource))))"

subsection \<open>Worksheet elements\<close>

fun get_tableau_mark_type :: "VisualizationType \<Rightarrow> string" where
  "get_tableau_mark_type BAR = ''Bar''"
| "get_tableau_mark_type LINE = ''Line''"
| "get_tableau_mark_type AREA = ''Area''"
| "get_tableau_mark_type SCATTER = ''Circle''"
| "get_tableau_mark_type PIE = ''Pie''"
| "get_tableau_mark_type HEATMAP = ''Square''"
| "get_tableau_mark_type TREEMAP = ''Square''"
| "get_tableau_mark_type MAP = ''Map''"
| "get_tableau_mark_type _ = ''Automatic''"

text \<open>
  \<^verbatim>\<open>_add_encoding\<close>: a shelf element holding one \<^verbatim>\<open>column\<close> whose text is
  the bracketed datasource name and field name; the \<^verbatim>\<open>aggregation\<close> attribute is
  set when the aggregation argument is truthy and differs from \<^verbatim>\<open>"none"\<close>.
\<close>

definition add_encoding ::
  "xml \<Rightarrow> string \<Rightarrow> string \<Rightarrow> xml \<Rightarrow> string option \<Rightarrow> xml" where
  "add_encoding parent shelf field_name datasource agg =
     append_child parent
       (Element shelf [] None
          [Element ''column''
             (case agg of
                None \<Rightarrow> []
              | Some a \<Rightarrow>
                  if a \<noteq> [] \<and> a \<noteq> ''none'' then [(''aggregation'', str_title a)] else [])
             (Some (''['' @ format_opt (get datasource ''name'') @ ''].['' @ field_name @ '']''))
             []])"

text \<open>
  The \<^verbatim>\<open>encodings\<close> element of \<^verbatim>\<open>_add_visualization_elements\<close>: rows,
  columns, colour, size, each behind the truthiness test of the source.
\<close>

definition encodings_element :: "VisualizationSpec \<Rightarrow> xml \<Rightarrow> xml" where
  "encodings_element viz_spec datasource =
     (let e0 = Element ''encodings'' [] None [];
          e1 = (if y_axis viz_spec \<noteq> []
                then fold (\<lambda>field parent.
                             add_encoding parent ''rows'' field datasource
                               (map_option aggregation_value (aggregation_type viz_spec)))
                       (y_axis viz_spec) e0
                else e0);
          e2 = (if x_axis viz_spec \<noteq> []
                then fold (\<lambda>field parent.
                             add_encoding parent ''columns'' field datasource (Some ''none''))
                       (x_axis viz_spec) e1
                else e1);
          e3 = (case color_field viz_spec of
                  None \<Rightarrow> e2
                | Some f \<Rightarrow>
                    if f \<noteq> [] then add_encoding e2 ''color'' f datasource (Some ''none'')
                    else e2)
      in case size_field viz_spec of
           None \<Rightarrow> e3
         | Some f \<Rightarrow>
             if f \<noteq> []
             then add_encoding e3 ''size'' f datasource
                    (map_option aggregation_value (aggregation_type viz_spec))
             else e3)"

definition add_visualization_elements :: "xml \<Rightarrow> VisualizationSpec \<Rightarrow> xml \<Rightarrow> xml" where
  "add_visualization_elements view viz_spec datasource =
     append_child
       (append_child view (Element ''aggregation'' [(''value'', ''true'')] None []))
       (Element ''panes'' [] None
          [Element ''pane''
             [(''selection-relaxation-option'', ''selection-relaxation-allow'')] None
             [Element ''view'' [(''name'', title viz_spec)] None [],
              Element ''mark'' [(''class'', get_tableau_mark_type (chart_type viz_spec))] None [],
              encodings_element viz_spec datasource]])"

definition add_worksheet_style :: "xml \<Rightarrow> WorksheetSpec \<Rightarrow> xml" where
  "add_worksheet_style worksheet worksheet_spec =
     append_child worksheet
       (Element ''layout-options'' [] None
          [Element ''title'' [] None
             [Element ''formatted-text'' [] None
                [text_element ''run'' (title (visualization worksheet_spec))]]])"

text \<open>
  \<^verbatim>\<open>datasource.get(...)\<close> yields \<^verbatim>\<open>None\<close> for an attribute that is not
  there; stored as an attribute value it makes the serialisation of the tree raise
  \<^verbatim>\<open>TypeError\<close>. The exception is raised here, where the value is stored.
\<close>

definition attribute_value :: "string option \<Rightarrow> exn + string" where
  "attribute_value v =
     (case v of
        None \<Rightarrow> Inl (Exn TypeError ''cannot serialize None (type NoneType)'')
      | Some s \<Rightarrow> Inr s)"

definition create_worksheet_element :: "xml \<Rightarrow> WorksheetSpec \<Rightarrow> xml \<Rightarrow> exn + xml" where
  "create_worksheet_element parent worksheet_spec datasource =
     bind (attribute_value (get datasource ''caption'')) (\<lambda>caption.
     bind (attribute_value (get datasource ''name'')) (\<lambda>ds_name.
       let view0 = Element ''view'' [] None
                     [Element ''datasources'' [] None
                        [Element ''datasource'' [(''caption'', caption), (''name'', ds_name)]
                           None []]];
           view = add_visualization_elements view0 (visualization worksheet_spec) datasource;
           table = Element ''table''
                     [(''name'', WorksheetSpec.name worksheet_spec), (''show-empty'', ''true'')]
                     None [view];
           worksheet = Element ''worksheet'' [(''name'', WorksheetSpec.name worksheet_spec)]
                         None [table]
       in Inr (append_child parent (add_worksheet_style worksheet worksheet_spec))))"

subsection \<open>Dashboard elements\<close>

text \<open>\<^verbatim>\<open>Element.set\<close>: replace the value of a key that is present, append otherwise.\<close>

fun set_attribute :: "(string \<times> string) list \<Rightarrow> string \<Rightarrow> string \<Rightarrow> (string \<times> string) list" where
  "set_attribute [] k v = [(k, v)]"
| "set_attribute ((k', v') # kvs) k v =
     (if k' = k then (k, v) # kvs else (k', v') # set_attribute kvs k v)"

definition set_attr :: "xml \<Rightarrow> string \<Rightarrow> string \<Rightarrow> xml" where
  "set_attr e k v = Element (tag e) (set_attribute (attrib e) k v) (text_of e) (children e)"

text \<open>A dictionary subscript raises \<^verbatim>\<open>KeyError\<close> on a missing key.\<close>

definition dict_getitem :: "(string \<times> int) list \<Rightarrow> string \<Rightarrow> exn + int" where
  "dict_getitem d k =
     (case map_of d k of None \<Rightarrow> Inl (Exn KeyError (quoted k)) | Some v \<Rightarrow> Inr v)"

text \<open>
  \<^verbatim>\<open>_add_zone_properties\<close>: the grid position of a worksheet. \<^verbatim>\<open>index\<close> and
  \<^verbatim>\<open>total\<close> are a loop index and a list length, so natural numbers; the division
  by \<^verbatim>\<open>cols\<close> raises when \<^verbatim>\<open>total\<close> is 0.
\<close>

definition add_zone_properties :: "xml \<Rightarrow> WorksheetSpec \<Rightarrow> nat \<Rightarrow> nat \<Rightarrow> exn + xml" where
  "add_zone_properties zone worksheet index total' =
     (let cols = (if total' > 2 then 2 else total')
      in if cols = 0 then Inl (Exn ZeroDivisionError ''integer division or modulo by zero'')
         else
           let grid_rows = (total' + cols - 1) div cols;
               col = index mod cols;
               row = index div cols;
               z1 = set_attr zone ''x'' (str_nat (col * 400));
               z2 = set_attr z1 ''y'' (str_nat (row * 300));
               z3 = set_attr z2 ''w'' ''400'';
               z4 = set_attr z3 ''h'' ''300''
           in Inr (append_child z4
                     (Element ''worksheet'' [(''name'', WorksheetSpec.name worksheet)] None [])))"

text \<open>The \<^verbatim>\<open>zones\<close> element: one zone per worksheet, in order.\<close>

definition zones_element :: "DashboardSpec \<Rightarrow> exn + xml" where
  "zones_element dashboard_spec =
     for_each
       (\<lambda>(i, worksheet) zones.
          bind (add_zone_properties
                  (Element ''zone'' [(''id'', str_nat i), (''type'', ''layout-basic'')] None [])
                  worksheet i (length (worksheets dashboard_spec)))
            (\<lambda>zone. Inr (append_child zones zone)))
       (enumerate 0 (worksheets dashboard_spec))
       (Element ''zones'' [] None [])"

definition create_dashboard_element :: "DashboardSpec \<Rightarrow> xml \<Rightarrow> exn + xml" where
  "create_dashboard_element dashboard_spec parent =
     bind (dict_getitem (DashboardSpec.dimensions dashboard_spec) ''height'') (\<lambda>height.
     bind (dict_getitem (DashboardSpec.dimensions dashboard_spec) ''width'') (\<lambda>width.
     bind (zones_element dashboard_spec) (\<lambda>zones.
       Inr (append_child parent
         (Element ''dashboard'' [(''name'', DashboardSpec.name dashboard_spec)] None
            [Element ''size''
               [(''maxheight'', str_int height), (''maxwidth'', str_int width)] None [],
             Element ''view'' [] None
               [zones,
                Element ''devicelayouts'' [] None
                  [Element ''devicelayout''
                     [(''auto-generated'', ''true''), (''name'', ''Phone'')] None []]]])))))"

text \<open>
  \<^verbatim>\<open>_create_windows_element\<close>: the window is named after
  \<^verbatim>\<open>dashboards[0].worksheets[0]\<close> whenever the list of dashboards is not empty;
  the subscript of an empty worksheet list raises \<^verbatim>\<open>IndexError\<close>.
\<close>

definition first_worksheet_name :: "TableauWorkbookSpec \<Rightarrow> exn + string" where
  "first_worksheet_name wb_spec =
     (case dashboards wb_spec of
        [] \<Rightarrow> Inr ''Sheet1''
      | d # _ \<Rightarrow>
          (case worksheets d of
             [] \<Rightarrow> Inl (Exn IndexError ''list index out of range'')
           | s # _ \<Rightarrow> Inr (WorksheetSpec.name s)))"

definition create_windows_element :: "xml \<Rightarrow> TableauWorkbookSpec \<Rightarrow> exn + xml" where
  "create_windows_element parent wb_spec =
     bind (first_worksheet_name wb_spec) (\<lambda>window_name.
       Inr (append_child parent
         (Element ''window''
            [(''class'', ''worksheet''), (''maximized'', ''true''), (''name'', window_name)] None
            [Element ''cards'' [] None
               [Element ''edge'' [(''name'', ''left'')] None
                  [Element ''strip'' [(''size'', ''160'')] None
                     [Element ''card'' [(''type'', ''data'')] None []]]]])))"

subsection \<open>Workbook and datasource documents\<close>

text \<open>The tree that \<^verbatim>\<open>_generate_workbook_xml\<close> builds before it is serialised.\<close>

definition workbook_tree ::
  "TableauWorkbookGenerator \<Rightarrow> world \<Rightarrow> TableauWorkbookSpec \<Rightarrow> GenerationRequest \<Rightarrow> exn + xml" where
  "workbook_tree self w wb_spec request =
     bind (create_datasource_element self w (Element ''datasources'' [] None [])
             (dataset_schema request)) (\<lambda>(datasources, datasource).
     bind (for_each (\<lambda>worksheet parent. create_worksheet_element parent worksheet datasource)
             (concat (map worksheets (dashboards wb_spec)))
             (Element ''worksheets'' [] None [])) (\<lambda>worksheet_elements.
     bind (for_each create_dashboard_element (dashboards wb_spec)
             (Element ''dashboards'' [] None [])) (\<lambda>dashboard_elements.
     bind (create_windows_element (Element ''windows'' [] None []) wb_spec) (\<lambda>windows.
       Inr (Element ''workbook''
              [(''version'', tableau_version self),
               (''build-version'', build_version self),
               (''source-build'', build_version self)] None
              [Element ''preferences'' [] None [],
               Element ''repository-location''
                 [(''id'', ''TWB Repository''),
                  (''path'', TableauWorkbookSpec.name wb_spec @ ''.twb'')] None [],
               datasources, worksheet_elements, dashboard_elements, windows])))))"

definition generate_workbook_xml ::
  "TableauWorkbookGenerator \<Rightarrow> world \<Rightarrow> TableauWorkbookSpec \<Rightarrow> GenerationRequest \<Rightarrow> exn + string" where
  "generate_workbook_xml self w wb_spec request =
     bind (workbook_tree self w wb_spec request) (pretty_xml w)"

definition generate_datasource_xml ::
  "TableauWorkbookGenerator \<Rightarrow> world \<Rightarrow> DatasetSchema \<Rightarrow> exn + string" where
  "generate_datasource_xml self w schema =
     pretty_xml w
       (Element ''datasource''
          [(''formatted-name'', DatasetSchema.name schema),
           (''inline'', ''true''),
           (''source-platform'', ''win''),
           (''version'', ''18.1'')] None
          [Element ''connection''
             [(''class'', ''textscan''),
              (''directory'', output_directory self),
              (''filename'', DatasetSchema.name schema @ ''.csv'')] None []])"

subsection \<open>Packaging\<close>

text \<open>
  \<^verbatim>\<open>_create_twb_file\<close>: \<^verbatim>\<open>open\<close>, then \<^verbatim>\<open>write\<close>. Each function
  of this subsection returns its outcome together with the file system it leaves, also
  when it raises.
\<close>

definition create_twb_file ::
  "TableauWorkbookGenerator \<Rightarrow> world \<Rightarrow> string \<Rightarrow> TableauWorkbookSpec \<Rightarrow> filesystem
   \<Rightarrow> (exn + string) \<times> filesystem" where
  "create_twb_file self w workbook_xml wb_spec fs =
     (let filename = TableauWorkbookSpec.name wb_spec @ ''.twb'';
          path = path_join w (output_directory self) filename
      in case open_error w path of
           Some e \<Rightarrow> (Inl e, fs)
         | None \<Rightarrow>
             (case write_error w path workbook_xml of
                Some e \<Rightarrow> (Inl e, fs(path \<mapsto> UnfinishedFile))
              | None \<Rightarrow> (Inr path, fs(path \<mapsto> TextFile workbook_xml))))"

text \<open>\<^verbatim>\<open>zipf.writestr(arcname, data)\<close>: the archive with the entry added, or the exception.\<close>

definition writestr ::
  "world \<Rightarrow> (string \<times> string) list \<Rightarrow> string \<Rightarrow> string \<Rightarrow> exn + (string \<times> string) list" where
  "writestr w zipf arcname data =
     (case write_error w arcname data of
        Some e \<Rightarrow> Inl e
      | None \<Rightarrow> Inr (zipf @ [(arcname, data)]))"

text \<open>
  \<^verbatim>\<open>_create_twbx_file\<close>: the archive is opened, the workbook XML and the datasource
  XML are written, and only then, when sample data is asked for, the CSV text is
  generated and written. An exception at any of these steps leaves the archive with the
  entries written before it.
\<close>

definition create_twbx_file ::
  "TableauWorkbookGenerator \<Rightarrow> world \<Rightarrow> string \<Rightarrow> string \<Rightarrow> TableauWorkbookSpec
   \<Rightarrow> GenerationRequest \<Rightarrow> filesystem \<Rightarrow> (exn + string) \<times> filesystem" where
  "create_twbx_file self w workbook_xml datasource_xml wb_spec request fs =
     (let filename = TableauWorkbookSpec.name wb_spec @ ''.twbx'';
          path = path_join w (output_directory self) filename
      in case open_error w path of
           Some e \<Rightarrow> (Inl e, fs)
         | None \<Rightarrow>
             (case writestr w [] ''workbook.twb'' workbook_xml of
                Inl e \<Rightarrow> (Inl e, fs(path \<mapsto> ZipArchive []))
              | Inr zipf1 \<Rightarrow>
                  (case writestr w zipf1 ''Data/Datasources/datasource.tds'' datasource_xml of
                     Inl e \<Rightarrow> (Inl e, fs(path \<mapsto> ZipArchive zipf1))
                   | Inr zipf2 \<Rightarrow>
                       if include_sample_data request
                       then
                         (case bind (generate_sample_csv w (dataset_schema request))
                                 (\<lambda>sample_data.
                                    writestr w zipf2
                                      (''Data/'' @ DatasetSchema.name (dataset_schema request)
                                         @ ''.csv'')
                                      sample_data) of
                            Inl e \<Rightarrow> (Inl e, fs(path \<mapsto> ZipArchive zipf2))
                          | Inr zipf3 \<Rightarrow> (Inr path, fs(path \<mapsto> ZipArchive zipf3)))
                       else (Inr path, fs(path \<mapsto> ZipArchive zipf2)))))"

subsection \<open>Top-level orchestration\<close>

text \<open>
  The body of the \<^verbatim>\<open>try\<close> block of \<^verbatim>\<open>generate_workbook\<close>: the result it
  returns or the exception it raises, and the file system it leaves.
\<close>

definition generate_workbook_try ::
  "TableauWorkbookGenerator \<Rightarrow> world \<Rightarrow> GenerationRequest \<Rightarrow> filesystem
   \<Rightarrow> (exn + GenerationResult) \<times> filesystem" where
  "generate_workbook_try self w request fs =
     (let wb_spec = create_workbook_specification self request
      in case bind (generate_workbook_xml self w wb_spec request) (\<lambda>workbook_xml.
              bind (generate_datasource_xml self w (dataset_schema request)) (\<lambda>datasource_xml.
                Inr (workbook_xml, datasource_xml))) of
           Inl e \<Rightarrow> (Inl e, fs)
         | Inr (workbook_xml, datasource_xml) \<Rightarrow>
             (case (if output_format request = Twbx
                    then create_twbx_file self w workbook_xml datasource_xml wb_spec request fs
                    else create_twb_file self w workbook_xml wb_spec fs) of
                (Inl e, fs') \<Rightarrow> (Inl e, fs')
              | (Inr path, fs') \<Rightarrow>
                  (Inr \<lparr>workbook_spec = wb_spec,
                        file_path = path,
                        generation_time = elapsed_seconds w,
                        GenerationResult.warnings = [],
                        success = True,
                        error_message = None\<rparr>, fs')))"

text \<open>
  \<^verbatim>\<open>generate_workbook\<close>: the handler turns the exception into a result and leaves
  the files as the \<^verbatim>\<open>try\<close> block left them.
\<close>

definition generate_workbook ::
  "TableauWorkbookGenerator \<Rightarrow> world \<Rightarrow> GenerationRequest \<Rightarrow> filesystem
   \<Rightarrow> GenerationResult \<times> filesystem" where
  "generate_workbook self w request fs =
     (case generate_workbook_try self w request fs of
        (Inr result, fs') \<Rightarrow> (result, fs')
      | (Inl e, fs') \<Rightarrow>
          (\<lparr>workbook_spec =
              \<lparr>TableauWorkbookSpec.name = ''Failed Generation'',
               TableauWorkbookSpec.description = ''Generation failed'',
               dashboards = [],
               data_source = [],
               version = ''2023.3'',
               created_by = ''AI Dashboard Generator''\<rparr>,
            file_path = [],
            generation_time = elapsed_seconds w,
            GenerationResult.warnings = [],
            success = False,
            error_message = Some (str_exn e)\<rparr>, fs'))"

subsection \<open>Properties as the specification words them\<close>

text \<open>
  The encodings of a worksheet as the specification lists them: one "rows" encoding per
  y-axis field carrying the capitalised aggregation when one is set, one "columns"
  encoding per x-axis field without aggregation, one "color" encoding when the colour
  field is set, one "size" encoding when the size field is set (aggregated like rows);
  the column text is the bracketed datasource name and field name.
\<close>

fun aggregation_title :: "aggregation \<Rightarrow> string" where
  "aggregation_title Agg_sum = ''Sum''"
| "aggregation_title Agg_avg = ''Avg''"
| "aggregation_title Agg_count = ''Count''"
| "aggregation_title Agg_min = ''Min''"
| "aggregation_title Agg_max = ''Max''"

fun spec_aggregation :: "aggregation option \<Rightarrow> (string \<times> string) list" where
  "spec_aggregation None = []"
| "spec_aggregation (Some a) = [(''aggregation'', aggregation_title a)]"

definition spec_encoding :: "string \<Rightarrow> string \<Rightarrow> string \<Rightarrow> (string \<times> string) list \<Rightarrow> xml" where
  "spec_encoding ds_name shelf field attrs =
     Element shelf [] None
       [Element ''column'' attrs (Some (''['' @ ds_name @ ''].['' @ field @ '']'')) []]"

definition spec_encodings :: "string \<Rightarrow> VisualizationSpec \<Rightarrow> xml list" where
  "spec_encodings ds_name viz =
     map (\<lambda>f. spec_encoding ds_name ''rows'' f (spec_aggregation (aggregation_type viz)))
       (y_axis viz)
     @ map (\<lambda>f. spec_encoding ds_name ''columns'' f []) (x_axis viz)
     @ (case color_field viz of
          None \<Rightarrow> []
        | Some f \<Rightarrow> [spec_encoding ds_name ''color'' f []])
     @ (case size_field viz of
          None \<Rightarrow> []
        | Some f \<Rightarrow>
            [spec_encoding ds_name ''size'' f (spec_aggregation (aggregation_type viz))])"


text \<open>An optional field name that is the empty string, read as not set.\<close>

fun unset_if_empty :: "string option \<Rightarrow> string option" where
  "unset_if_empty None = None"
| "unset_if_empty (Some s) = (if s = [] then None else Some s)"

text \<open>
  The invariant the specification states for \<^verbatim>\<open>ValidationResult\<close>:
  \<^verbatim>\<open>is_valid\<close> is false if and only if \<^verbatim>\<open>errors\<close> is non-empty.
\<close>

definition ValidationResult_invariant :: "ValidationResult \<Rightarrow> bool" where
  "ValidationResult_invariant v = ((\<not> is_valid v) = (errors v \<noteq> []))"

subsection \<open>Example inputs\<close>

text \<open>Concrete values on which the properties below are evaluated.\<close>

definition sales_column :: DataColumn where
  "sales_column =
     \<lparr>DataColumn.name = ''Sales'', data_type = FLOAT, unique_values = 3, null_count = 0,
      is_key_field = False, recommended_role = Some Role_measure\<rparr>"

definition region_column :: DataColumn where
  "region_column =
     \<lparr>DataColumn.name = ''Region'', data_type = CATEGORICAL, unique_values = 2, null_count = 1,
      is_key_field = False, recommended_role = Some Role_dimension\<rparr>"

definition profit_ratio :: CalculatedFieldSpec where
  "profit_ratio =
     \<lparr>CalculatedFieldSpec.name = ''Profit Ratio'', formula = ''SUM([Profit])/SUM([Sales])'',
      data_type = FLOAT, role = Some Calc_measure\<rparr>"

definition sales_schema :: "CalculatedFieldSpec list \<Rightarrow> DatasetSchema" where
  "sales_schema calcs =
     \<lparr>DatasetSchema.name = ''Sales'', total_rows = 3, total_columns = 2,
      columns = [region_column, sales_column], data_quality_score = 1,
      business_context = None, calculated_fields = calcs\<rparr>"

definition bar_viz :: "string option \<Rightarrow> string option \<Rightarrow> VisualizationSpec" where
  "bar_viz colour sz =
     \<lparr>chart_type = BAR, title = ''Sales by Region'', x_axis = [''Region''],
      y_axis = [''Sales''], color_field = colour, size_field = sz,
      color_scheme = TABLEAU10, show_labels = True, show_legend = True,
      aggregation_type = Some Agg_sum\<rparr>"

definition sales_request ::
  "CalculatedFieldSpec list \<Rightarrow> VisualizationSpec list \<Rightarrow> output_format \<Rightarrow> bool
   \<Rightarrow> GenerationRequest" where
  "sales_request calcs vizs fmt sample =
     \<lparr>dataset_schema = sales_schema calcs,
      ai_analysis = \<lparr>recommended_kpis = [], recommended_visualizations = vizs,
                     performance_considerations = []\<rparr>,
      output_format = fmt, include_sample_data = sample\<rparr>"

text \<open>
  Surroundings in which nothing fails: the serialiser is stood in for by one that prints
  the root tag only, every file can be opened and written, directory names are taken to
  be in normal form already and paths are joined with a slash.
\<close>

definition calm_world :: world where
  "calm_world =
     \<lparr>uuid_token = ''1A2B3C4D'',
      pretty_xml = (\<lambda>t. Inr (''<'' @ tag t @ ''/>'')),
      path_str = (\<lambda>d. d),
      path_join = (\<lambda>d f. d @ ''/'' @ f),
      open_error = (\<lambda>p. None),
      write_error = (\<lambda>n c. None),
      generate_sample_csv = (\<lambda>s. Inr ''Region,Sales''),
      elapsed_seconds = 0\<rparr>"

text \<open>
  The same surroundings, except that the sample CSV cannot be encoded: writing the entry
  Data/Sales.csv raises (as a sample value holding a lone surrogate makes it).
\<close>

definition csv_failing_world :: world where
  "csv_failing_world =
     calm_world\<lparr>write_error :=
       (\<lambda>n c. if n = ''Data/Sales.csv''
              then Some (Exn UnicodeEncodeError ''surrogates not allowed'')
              else None)\<rparr>"

definition generator :: TableauWorkbookGenerator where
  "generator = TableauWorkbookGenerator_init calm_world ''data/outputs''"


section \<open>Verified properties\<close>

subsection \<open>Data type mapping\<close>

text \<open>
  Claim C8. The semantic-type-to-Tableau-type mapping is a total function of its
  argument alone: integer maps to "integer", float to "real", string to "string",
  datetime to "datetime", boolean to "boolean", categorical to "string", and every
  value that is not a key of the table, the enum value "date" among them, maps to
  the default "string".
\<close>

theorem C8_type_mapping_total:
  "get_tableau_data_type INTEGER = ''integer''
   \<and> get_tableau_data_type FLOAT = ''real''
   \<and> get_tableau_data_type STRING = ''string''
   \<and> get_tableau_data_type DATETIME = ''datetime''
   \<and> get_tableau_data_type BOOLEAN = ''boolean''
   \<and> get_tableau_data_type CATEGORICAL = ''string''
   \<and> get_tableau_data_type DATE = ''string''
   \<and> (\<forall>v. v \<notin> set (map fst tableau_type_mapping)
          \<longrightarrow> mapping_get tableau_type_mapping v ''string'' = ''string'')"
proof -
  have unlisted: "mapping_get tableau_type_mapping v ''string'' = ''string''"
    if "v \<notin> set (map fst tableau_type_mapping)" for v
  proof -
    from that have "map_of tableau_type_mapping v = None"
      by (simp add: map_of_eq_None_iff)
    then show ?thesis by (simp add: mapping_get_def)
  qed
  have listed: "get_tableau_data_type INTEGER = ''integer''"
    "get_tableau_data_type FLOAT = ''real''"
    "get_tableau_data_type STRING = ''string''"
    "get_tableau_data_type DATETIME = ''datetime''"
    "get_tableau_data_type BOOLEAN = ''boolean''"
    "get_tableau_data_type CATEGORICAL = ''string''"
    "get_tableau_data_type DATE = ''string''"
    by (simp_all add: get_tableau_data_type_def mapping_get_def tableau_type_mapping_def)
  from listed unlisted show ?thesis by blast
qed

theorem C8_type_mapping_total_witness:
  "''date'' \<notin> set (map fst tableau_type_mapping)
   \<and> mapping_get tableau_type_mapping ''date'' ''string'' = ''string''
   \<and> get_tableau_data_type FLOAT = ''real''"
proof -
  have h: "''date'' \<notin> set (map fst tableau_type_mapping)"
    by (simp add: tableau_type_mapping_def)
  with C8_type_mapping_total show ?thesis by blast
qed

subsection \<open>Auxiliary facts\<close>

lemma bind_Inr [simp]: "bind (Inr v) f = f v"
  by (simp add: bind_def)

lemma bind_Inl [simp]: "bind (Inl e) f = Inl e"
  by (simp add: bind_def)

lemma for_each_total:
  assumes "\<And>x s. x \<in> set xs \<Longrightarrow> body x s = Inr (g x s)"
  shows "for_each body xs s = Inr (fold g xs s)"
  using assms by (induction xs arbitrary: s) simp_all

lemma fold_append_child:
  "fold (\<lambda>x p. append_child p (f x)) xs p =
     Element (tag p) (attrib p) (text_of p) (children p @ map f xs)"
  by (induction xs arbitrary: p) (simp_all add: append_child_def)

declare str_nat.simps [simp del]

text \<open>The decimal string of a number reads back as that number, so it determines it.\<close>

lemma digit_value_digit_char: "d < 10 \<Longrightarrow> digit_value (digit_char d) = d"
  by (auto simp: digit_char_def digit_value_def)

lemma int_of_str_str_nat: "int_of_str (str_nat n) = n"
proof (induction n rule: str_nat.induct)
  case (1 n)
  show ?case
  proof (cases "n < 10")
    case True
    then show ?thesis
      by (simp add: str_nat.simps [of n] int_of_str_def digit_value_digit_char)
  next
    case False
    with 1 have "int_of_str (str_nat (n div 10)) = n div 10" by simp
    with False show ?thesis
      by (simp add: str_nat.simps [of n] int_of_str_def digit_value_digit_char)
  qed
qed

lemma str_nat_inj: "str_nat m = str_nat n \<Longrightarrow> m = n"
  using int_of_str_str_nat by metis

subsection \<open>Workbook specification\<close>

text \<open>
  Claim C4. For every generation request the specification builder returns a workbook
  with exactly one dashboard, named "AI Generated Dashboard"; its worksheets correspond
  one to one and in order to the recommended visualizations, the worksheet at 1-based
  position i being named "Sheet i" and wrapping the i-th visualization; and the
  workbook is named after the dataset, with "_Dashboard" appended.
\<close>

theorem C4_workbook_specification:
  "\<exists>d. dashboards (create_workbook_specification self request) = [d]
     \<and> DashboardSpec.name d = ''AI Generated Dashboard''
     \<and> length (worksheets d) = length (recommended_visualizations (ai_analysis request))
     \<and> (\<forall>i < length (recommended_visualizations (ai_analysis request)).
           WorksheetSpec.name (worksheets d ! i) = ''Sheet '' @ str_nat (i + 1)
           \<and> visualization (worksheets d ! i)
               = recommended_visualizations (ai_analysis request) ! i)
     \<and> TableauWorkbookSpec.name (create_workbook_specification self request)
         = DatasetSchema.name (dataset_schema request) @ ''_Dashboard''"
  by (simp add: create_workbook_specification_def Let_def nth_enumerate_eq)

theorem C4_workbook_specification_witness:
  "\<exists>d. dashboards (create_workbook_specification generator
            (sales_request [] [bar_viz None None, bar_viz (Some ''Region'') None] Twbx True)) = [d]
     \<and> DashboardSpec.name d = ''AI Generated Dashboard''
     \<and> length (worksheets d) = 2
     \<and> WorksheetSpec.name (worksheets d ! 1) = ''Sheet 2''
     \<and> visualization (worksheets d ! 1) = bar_viz (Some ''Region'') None"
proof -
  let ?r = "sales_request [] [bar_viz None None, bar_viz (Some ''Region'') None] Twbx True"
  have vs: "recommended_visualizations (ai_analysis ?r)
            = [bar_viz None None, bar_viz (Some ''Region'') None]"
    by (simp add: sales_request_def)
  have two: "str_nat (1 + 1) = ''2''"
    by (simp add: str_nat.simps digit_char_def)
  from C4_workbook_specification [of generator ?r] obtain d where
    d: "dashboards (create_workbook_specification generator ?r) = [d]"
       "DashboardSpec.name d = ''AI Generated Dashboard''"
       "length (worksheets d) = length (recommended_visualizations (ai_analysis ?r))"
       "\<forall>i < length (recommended_visualizations (ai_analysis ?r)).
           WorksheetSpec.name (worksheets d ! i) = ''Sheet '' @ str_nat (i + 1)
           \<and> visualization (worksheets d ! i) = recommended_visualizations (ai_analysis ?r) ! i"
    by blast
  from d(4) have "WorksheetSpec.name (worksheets d ! 1) = ''Sheet '' @ str_nat (1 + 1)
      \<and> visualization (worksheets d ! 1) = recommended_visualizations (ai_analysis ?r) ! 1"
    by (simp add: vs)
  with d(1,2,3) vs two show ?thesis by simp
qed

subsection \<open>Dashboard zones\<close>

lemma add_zone_properties_ok:
  assumes "0 < n"
  shows "add_zone_properties (Element ''zone'' [(''id'', a), (''type'', b)] None []) ws i n =
     Inr (Element ''zone''
            [(''id'', a), (''type'', b),
             (''x'', str_nat ((i mod (if 2 < n then 2 else n)) * 400)),
             (''y'', str_nat ((i div (if 2 < n then 2 else n)) * 300)),
             (''w'', ''400''), (''h'', ''300'')] None
            [Element ''worksheet'' [(''name'', WorksheetSpec.name ws)] None []])"
  using assms by (simp add: add_zone_properties_def Let_def set_attr_def append_child_def)

lemma zones_element_ok:
  "zones_element d =
     Inr (Element ''zones'' [] None
       (map (\<lambda>(i, ws).
          Element ''zone''
            [(''id'', str_nat i), (''type'', ''layout-basic''),
             (''x'', str_nat ((i mod (if 2 < length (worksheets d) then 2 else length (worksheets d))) * 400)),
             (''y'', str_nat ((i div (if 2 < length (worksheets d) then 2 else length (worksheets d))) * 300)),
             (''w'', ''400''), (''h'', ''300'')] None
            [Element ''worksheet'' [(''name'', WorksheetSpec.name ws)] None []])
        (enumerate 0 (worksheets d))))"
proof -
  let ?n = "length (worksheets d)"
  let ?z = "\<lambda>(i, ws).
          Element ''zone''
            [(''id'', str_nat i), (''type'', ''layout-basic''),
             (''x'', str_nat ((i mod (if 2 < ?n then 2 else ?n)) * 400)),
             (''y'', str_nat ((i div (if 2 < ?n then 2 else ?n)) * 300)),
             (''w'', ''400''), (''h'', ''300'')] None
            [Element ''worksheet'' [(''name'', WorksheetSpec.name ws)] None []]"
  let ?body = "\<lambda>(i, worksheet) zones.
          bind (add_zone_properties
                  (Element ''zone'' [(''id'', str_nat i), (''type'', ''layout-basic'')] None [])
                  worksheet i ?n)
            (\<lambda>zone. Inr (append_child zones zone))"
  have step: "?body x s = Inr (append_child s (?z x))"
    if "x \<in> set (enumerate 0 (worksheets d))" for x s
  proof -
    from that have "0 < ?n" by (cases "worksheets d") auto
    then show ?thesis
      by (cases x) (simp add: add_zone_properties_ok)
  qed
  have "for_each ?body (enumerate 0 (worksheets d)) (Element ''zones'' [] None [])
        = Inr (fold (\<lambda>x p. append_child p (?z x)) (enumerate 0 (worksheets d))
                 (Element ''zones'' [] None []))"
    by (rule for_each_total) (rule step)
  then show ?thesis
    by (simp add: zones_element_def fold_append_child)
qed

text \<open>
  Claim C5. For a dashboard with N worksheets (N at least 1) and columns = 2 if N > 2,
  else N, the zone emitted for the worksheet at 0-based index i has x = (i mod columns)
  times 400, y = (i div columns) times 300, w = 400 and h = 300; for N up to 2 this is
  x = i times 400 and y = 0. The zones are those of the dashboard element that
  \<^verbatim>\<open>_create_dashboard_element\<close> appends.
\<close>

theorem C5_zone_grid:
  assumes "i < length (worksheets d)"
  shows "\<exists>zones. zones_element d = Inr zones
     \<and> length (children zones) = length (worksheets d)
     \<and> get (children zones ! i) ''x''
         = Some (str_nat ((i mod (if length (worksheets d) > 2 then 2 else length (worksheets d))) * 400))
     \<and> get (children zones ! i) ''y''
         = Some (str_nat ((i div (if length (worksheets d) > 2 then 2 else length (worksheets d))) * 300))
     \<and> get (children zones ! i) ''w'' = Some ''400''
     \<and> get (children zones ! i) ''h'' = Some ''300''
     \<and> children (children zones ! i)
         = [Element ''worksheet'' [(''name'', WorksheetSpec.name (worksheets d ! i))] None []]
     \<and> (length (worksheets d) \<le> 2 \<longrightarrow>
           get (children zones ! i) ''x'' = Some (str_nat (i * 400))
           \<and> get (children zones ! i) ''y'' = Some ''0'')
     \<and> (\<forall>parent p. create_dashboard_element d parent = Inr p \<longrightarrow>
           (\<exists>size_element rest.
              children p = children parent
                @ [Element ''dashboard'' [(''name'', DashboardSpec.name d)] None
                     [size_element, Element ''view'' [] None (zones # rest)]]))
     \<and> (\<forall>h wd parent.
           dict_getitem (DashboardSpec.dimensions d) ''height'' = Inr h
           \<and> dict_getitem (DashboardSpec.dimensions d) ''width'' = Inr wd \<longrightarrow>
           create_dashboard_element d parent =
             Inr (append_child parent
               (Element ''dashboard'' [(''name'', DashboardSpec.name d)] None
                  [Element ''size''
                     [(''maxheight'', str_int h), (''maxwidth'', str_int wd)] None [],
                   Element ''view'' [] None
                     [zones,
                      Element ''devicelayouts'' [] None
                        [Element ''devicelayout''
                           [(''auto-generated'', ''true''), (''name'', ''Phone'')] None []]]])))"
proof -
  have link: "\<exists>size_element rest.
              children p = children parent
                @ [Element ''dashboard'' [(''name'', DashboardSpec.name d)] None
                     [size_element, Element ''view'' [] None (z # rest)]]"
    if "create_dashboard_element d parent = Inr p" "zones_element d = Inr z" for parent p z
    using that
    by (auto simp: create_dashboard_element_def bind_def append_child_def split: sum.splits)
  have small: "i mod length (worksheets d) = i" "i div length (worksheets d) = 0"
    using assms by simp_all
  have zero: "str_nat 0 = ''0''"
    by (simp add: str_nat.simps digit_char_def)
  have "zones_element d = Inr (Element ''zones'' [] None
       (map (\<lambda>(i, ws).
          Element ''zone''
            [(''id'', str_nat i), (''type'', ''layout-basic''),
             (''x'', str_nat ((i mod (if 2 < length (worksheets d) then 2 else length (worksheets d))) * 400)),
             (''y'', str_nat ((i div (if 2 < length (worksheets d) then 2 else length (worksheets d))) * 300)),
             (''w'', ''400''), (''h'', ''300'')] None
            [Element ''worksheet'' [(''name'', WorksheetSpec.name ws)] None []])
        (enumerate 0 (worksheets d))))" (is "_ = Inr ?zs")
    by (rule zones_element_ok)
  moreover have "length (children ?zs) = length (worksheets d)"
    by simp
  moreover have "get (children ?zs ! i) ''x''
         = Some (str_nat ((i mod (if length (worksheets d) > 2 then 2 else length (worksheets d))) * 400))"
    "get (children ?zs ! i) ''y''
         = Some (str_nat ((i div (if length (worksheets d) > 2 then 2 else length (worksheets d))) * 300))"
    "get (children ?zs ! i) ''w'' = Some ''400''"
    "get (children ?zs ! i) ''h'' = Some ''300''"
    "children (children ?zs ! i)
         = [Element ''worksheet'' [(''name'', WorksheetSpec.name (worksheets d ! i))] None []]"
    using assms by (simp_all add: nth_enumerate_eq get_def)
  moreover have "length (worksheets d) \<le> 2 \<longrightarrow>
           get (children ?zs ! i) ''x'' = Some (str_nat (i * 400))
           \<and> get (children ?zs ! i) ''y'' = Some ''0''"
    using assms small zero by (simp add: nth_enumerate_eq get_def)
  moreover have "\<forall>parent p. create_dashboard_element d parent = Inr p \<longrightarrow>
           (\<exists>size_element rest.
              children p = children parent
                @ [Element ''dashboard'' [(''name'', DashboardSpec.name d)] None
                     [size_element, Element ''view'' [] None (?zs # rest)]])"
    using link calculation(1) by blast
  moreover have "\<forall>h wd parent.
           dict_getitem (DashboardSpec.dimensions d) ''height'' = Inr h
           \<and> dict_getitem (DashboardSpec.dimensions d) ''width'' = Inr wd \<longrightarrow>
           create_dashboard_element d parent =
             Inr (append_child parent
               (Element ''dashboard'' [(''name'', DashboardSpec.name d)] None
                  [Element ''size''
                     [(''maxheight'', str_int h), (''maxwidth'', str_int wd)] None [],
                   Element ''view'' [] None
                     [?zs,
                      Element ''devicelayouts'' [] None
                        [Element ''devicelayout''
                           [(''auto-generated'', ''true''), (''name'', ''Phone'')] None []]]]))"
    using calculation(1) by (simp add: create_dashboard_element_def)
  ultimately show ?thesis by blast
qed

theorem C5_zone_grid_witness:
  "\<exists>zones. zones_element
       (hd (dashboards (create_workbook_specification generator
          (sales_request [] [bar_viz None None, bar_viz None None, bar_viz None None] Twbx True))))
       = Inr zones
     \<and> length (children zones) = 3
     \<and> get (children zones ! 2) ''x'' = Some ''0''
     \<and> get (children zones ! 2) ''y'' = Some ''300''
     \<and> get (children zones ! 2) ''w'' = Some ''400''
     \<and> get (children zones ! 2) ''h'' = Some ''300''"
proof -
  let ?d = "hd (dashboards (create_workbook_specification generator
          (sales_request [] [bar_viz None None, bar_viz None None, bar_viz None None] Twbx True)))"
  have n: "length (worksheets ?d) = 3"
    by (simp add: create_workbook_specification_def sales_request_def Let_def)
  have i: "2 < length (worksheets ?d)"
    by (simp add: n)
  have x: "str_nat ((2 mod 2) * 400) = ''0''" and y: "str_nat ((2 div 2) * 300) = ''300''"
    by (simp_all add: str_nat.simps digit_char_def)
  from C5_zone_grid [OF i] obtain zones where
    "zones_element ?d = Inr zones" "length (children zones) = length (worksheets ?d)"
    "get (children zones ! 2) ''x''
       = Some (str_nat ((2 mod (if length (worksheets ?d) > 2 then 2 else length (worksheets ?d))) * 400))"
    "get (children zones ! 2) ''y''
       = Some (str_nat ((2 div (if length (worksheets ?d) > 2 then 2 else length (worksheets ?d))) * 300))"
    "get (children zones ! 2) ''w'' = Some ''400''"
    "get (children zones ! 2) ''h'' = Some ''300''"
    by blast
  then show ?thesis
    using x y by (simp add: n)
qed

subsection \<open>Outcome of a generation\<close>

lemma generate_workbook_try_success:
  "fst (generate_workbook_try self w request fs) = Inr r \<Longrightarrow> success r \<and> error_message r = None"
  by (auto simp: generate_workbook_try_def Let_def split: sum.splits prod.splits if_splits)

lemma windows_without_worksheets:
  assumes "recommended_visualizations (ai_analysis request) = []"
  shows "create_windows_element parent (create_workbook_specification self request)
         = Inl (Exn IndexError ''list index out of range'')"
  using assms
  by (simp add: create_windows_element_def first_worksheet_name_def
      create_workbook_specification_def Let_def)

lemma workbook_tree_without_worksheets:
  assumes "recommended_visualizations (ai_analysis request) = []"
  shows "\<exists>e. workbook_tree self w (create_workbook_specification self request) request = Inl e
           \<and> (calculated_fields (dataset_schema request) = []
                \<longrightarrow> e = Exn IndexError ''list index out of range'')"
proof (cases "create_datasource_element self w (Element ''datasources'' [] None [])
                (dataset_schema request)")
  case (Inl e)
  moreover have "calculated_fields (dataset_schema request) \<noteq> []"
  proof
    assume "calculated_fields (dataset_schema request) = []"
    then have "\<exists>r. create_datasource_element self w (Element ''datasources'' [] None [])
                (dataset_schema request) = Inr r"
      by (simp add: create_datasource_element_def metadata_records_def column_instances_def Let_def)
    with Inl show False by simp
  qed
  ultimately show ?thesis by (simp add: workbook_tree_def)
next
  case (Inr r)
  have spec: "dashboards (create_workbook_specification self request)
      = [\<lparr>DashboardSpec.name = ''AI Generated Dashboard'',
          DashboardSpec.description = ''Automatically generated dashboard based on AI analysis'',
          worksheets = [], layout = DashboardLayout_default,
          DashboardSpec.color_scheme = TABLEAU10,
          DashboardSpec.dimensions = DashboardSpec_default_dimensions\<rparr>]"
    using assms by (simp add: create_workbook_specification_def Let_def)
  have dash: "\<exists>p. for_each create_dashboard_element
                 (dashboards (create_workbook_specification self request))
                 (Element ''dashboards'' [] None []) = Inr p"
    by (simp add: spec create_dashboard_element_def zones_element_def dict_getitem_def
        DashboardSpec_default_dimensions_def)
  then obtain p where p: "for_each create_dashboard_element
                 (dashboards (create_workbook_specification self request))
                 (Element ''dashboards'' [] None []) = Inr p" ..
  show ?thesis
    using Inr p windows_without_worksheets [OF assms]
    by (cases r) (simp add: workbook_tree_def spec)
qed

text \<open>
  The datasource element that the workbook is built around always carries a caption and a
  name, so the worksheets' references to it never hold a missing value.
\<close>

lemma datasource_caption_and_name:
  assumes "create_datasource_element self w parent schema = Inr (parent', datasource)"
  shows "get datasource ''caption'' = Some (DatasetSchema.name schema)
     \<and> get datasource ''name'' = Some (''federated.'' @ generate_id w)"
  using assms
  by (auto simp: create_datasource_element_def Let_def bind_def get_def split: sum.splits)

lemma try_without_worksheets:
  assumes "recommended_visualizations (ai_analysis request) = []"
  shows "\<exists>e. generate_workbook_try self w request fs = (Inl e, fs)
           \<and> (calculated_fields (dataset_schema request) = []
                \<longrightarrow> e = Exn IndexError ''list index out of range'')"
  using workbook_tree_without_worksheets [OF assms, of self w]
  by (auto simp: generate_workbook_try_def generate_workbook_xml_def Let_def)

text \<open>Three runs evaluated: two that succeed and one whose CSV entry cannot be written.\<close>

lemmas run_definitions =
  generate_workbook_try_def generate_workbook_xml_def workbook_tree_def
  create_datasource_element_def metadata_records_def column_instances_def
  create_worksheet_element_def attribute_value_def get_def
  create_dashboard_element_def zones_element_def add_zone_properties_def
  dict_getitem_def create_windows_element_def first_worksheet_name_def
  generate_datasource_xml_def create_twbx_file_def writestr_def
  create_workbook_specification_def sales_request_def sales_schema_def
  DashboardSpec_default_dimensions_def calm_world_def csv_failing_world_def generator_def
  TableauWorkbookGenerator_init_def append_child_def Let_def

lemma try_calm_success:
  "generate_workbook_try generator calm_world
     (sales_request [] [bar_viz None None] Twbx sample) Map.empty =
   (Inr \<lparr>workbook_spec = create_workbook_specification generator
                            (sales_request [] [bar_viz None None] Twbx sample),
         file_path = ''data/outputs/Sales_Dashboard.twbx'',
         generation_time = 0,
         GenerationResult.warnings = [],
         success = True,
         error_message = None\<rparr>,
    [''data/outputs/Sales_Dashboard.twbx'' \<mapsto>
       ZipArchive ([(''workbook.twb'', ''<workbook/>''),
                    (''Data/Datasources/datasource.tds'', ''<datasource/>'')]
                   @ (if sample then [(''Data/Sales.csv'', ''Region,Sales'')] else []))])"
  by (cases sample) (simp_all add: run_definitions)

lemma try_csv_failing:
  "generate_workbook_try generator csv_failing_world
     (sales_request [] [bar_viz None None] Twbx True) Map.empty =
   (Inl (Exn UnicodeEncodeError ''surrogates not allowed''),
    [''data/outputs/Sales_Dashboard.twbx'' \<mapsto>
       ZipArchive [(''workbook.twb'', ''<workbook/>''),
                   (''Data/Datasources/datasource.tds'', ''<datasource/>'')]])"
  by (simp add: run_definitions)

text \<open>
  Claim C1. For every generation request, \<^verbatim>\<open>generate_workbook\<close> returns a
  GenerationResult and propagates no exception; in the result, success holds exactly
  when error_message is null, and on failure error_message is the message of the
  exception that was raised. (The function is total: every exception of the
  \<^verbatim>\<open>try\<close> block is a value that the handler turns into a result.)
\<close>

theorem C1_generate_workbook_result:
  "(success (fst (generate_workbook self w request fs))
      \<longleftrightarrow> error_message (fst (generate_workbook self w request fs)) = None)
   \<and> (\<forall>e. fst (generate_workbook_try self w request fs) = Inl e \<longrightarrow>
          \<not> success (fst (generate_workbook self w request fs))
          \<and> error_message (fst (generate_workbook self w request fs)) = Some (str_exn e)
          \<and> dashboards (workbook_spec (fst (generate_workbook self w request fs))) = [])
   \<and> (\<forall>res. fst (generate_workbook_try self w request fs) = Inr res \<longrightarrow>
          fst (generate_workbook self w request fs) = res \<and> success res)"
proof (cases "generate_workbook_try self w request fs")
  case (Pair outcome fs')
  show ?thesis
  proof (cases outcome)
    case (Inl e)
    with Pair show ?thesis by (simp add: generate_workbook_def)
  next
    case (Inr res)
    with Pair have "success res \<and> error_message res = None"
      using generate_workbook_try_success [of self w request fs res] by simp
    with Pair Inr show ?thesis by (simp add: generate_workbook_def)
  qed
qed

theorem C1_generate_workbook_result_witness:
  "fst (generate_workbook_try generator calm_world (sales_request [] [] Twbx True) Map.empty)
     = Inl (Exn IndexError ''list index out of range'')
   \<and> \<not> success (fst (generate_workbook generator calm_world
                        (sales_request [] [] Twbx True) Map.empty))
   \<and> error_message (fst (generate_workbook generator calm_world
                            (sales_request [] [] Twbx True) Map.empty))
       = Some ''list index out of range''
   \<and> error_message (fst (generate_workbook generator csv_failing_world
                            (sales_request [] [bar_viz None None] Twbx True) Map.empty))
       = Some ''surrogates not allowed''
   \<and> success (fst (generate_workbook generator calm_world
                      (sales_request [] [bar_viz None None] Twbx True) Map.empty))
   \<and> error_message (fst (generate_workbook generator calm_world
                      (sales_request [] [bar_viz None None] Twbx True) Map.empty)) = None"
proof -
  have "recommended_visualizations (ai_analysis (sales_request [] [] Twbx True)) = []"
       "calculated_fields (dataset_schema (sales_request [] [] Twbx True)) = []"
    by (simp_all add: sales_request_def sales_schema_def)
  then have fails: "generate_workbook_try generator calm_world (sales_request [] [] Twbx True)
       Map.empty = (Inl (Exn IndexError ''list index out of range''), Map.empty)"
    using try_without_worksheets [of "sales_request [] [] Twbx True" generator calm_world Map.empty]
    by auto
  show ?thesis
    using C1_generate_workbook_result
            [of generator calm_world "sales_request [] [] Twbx True" Map.empty]
          C1_generate_workbook_result
            [of generator csv_failing_world "sales_request [] [bar_viz None None] Twbx True"
                Map.empty]
          C1_generate_workbook_result
            [of generator calm_world "sales_request [] [bar_viz None None] Twbx True" Map.empty]
          fails try_csv_failing try_calm_success [of True]
    by simp
qed

subsection \<open>Empty list of visualizations\<close>

text \<open>
  Claim C2 says that a request whose list of recommended visualizations is empty is
  generated successfully, with one dashboard of zero worksheets and an empty zones
  element. The specification builder and the zone loop do produce that dashboard, but
  \<^verbatim>\<open>_create_windows_element\<close> then subscripts the empty worksheet list: the
  window name falls back to "Sheet1" only when there is no dashboard at all. The
  generation therefore fails, and the result carries the placeholder workbook without
  dashboards.
\<close>

theorem C2_empty_visualizations_fail:
  assumes "recommended_visualizations (ai_analysis request) = []"
  shows "\<not> success (fst (generate_workbook self w request fs))
     \<and> dashboards (workbook_spec (fst (generate_workbook self w request fs))) = []
     \<and> (calculated_fields (dataset_schema request) = [] \<longrightarrow>
           error_message (fst (generate_workbook self w request fs))
             = Some ''list index out of range'')
     \<and> (\<exists>d. dashboards (create_workbook_specification self request) = [d]
              \<and> worksheets d = []
              \<and> zones_element d = Inr (Element ''zones'' [] None []))"
proof -
  from try_without_worksheets [OF assms, of self w fs] obtain e where
    e: "generate_workbook_try self w request fs = (Inl e, fs)"
       "calculated_fields (dataset_schema request) = [] \<longrightarrow>
          e = Exn IndexError ''list index out of range''"
    by blast
  have "\<exists>d. dashboards (create_workbook_specification self request) = [d]
              \<and> worksheets d = []
              \<and> zones_element d = Inr (Element ''zones'' [] None [])"
    using assms by (simp add: create_workbook_specification_def Let_def zones_element_def)
  with e show ?thesis
    by (auto simp: generate_workbook_def)
qed

theorem C2_empty_visualizations_fail_witness:
  "recommended_visualizations (ai_analysis (sales_request [] [] Twbx True)) = []
   \<and> \<not> success (fst (generate_workbook generator calm_world
                        (sales_request [] [] Twbx True) Map.empty))
   \<and> error_message (fst (generate_workbook generator calm_world
                        (sales_request [] [] Twbx True) Map.empty))
       = Some ''list index out of range''"
proof -
  have h: "recommended_visualizations (ai_analysis (sales_request [] [] Twbx True)) = []"
    and c: "calculated_fields (dataset_schema (sales_request [] [] Twbx True)) = []"
    by (simp_all add: sales_request_def sales_schema_def)
  from C2_empty_visualizations_fail [OF h, of generator calm_world Map.empty] c h
  show ?thesis by blast
qed

subsection \<open>Calculated fields\<close>

lemma metadata_records_calculated:
  assumes "calculated_fields schema \<noteq> []"
  shows "metadata_records schema
         = Inl (Exn TypeError (quoted ''CalculatedFieldSpec'' @ '' object is not subscriptable''))"
proof -
  from assms obtain c cs where "calculated_fields schema = c # cs"
    by (cases "calculated_fields schema") auto
  then show ?thesis
    by (simp add: metadata_records_def Let_def enumerate_simps
        add_calculated_field_metadata_def getitem_def)
qed

lemma metadata_records_columns:
  assumes "calculated_fields schema = []"
  shows "metadata_records schema =
     Inr (Element ''metadata-records'' [] None
       (map (\<lambda>(i, column).
          Element ''metadata-record'' [(''class'', ''column'')] None
            [text_element ''remote-name'' (DataColumn.name column),
             text_element ''remote-type'' (get_tableau_data_type (DataColumn.data_type column)),
             text_element ''local-name'' (''['' @ DataColumn.name column @ '']''),
             text_element ''parent-name'' (''['' @ DataColumn.name column @ '']''),
             text_element ''remote-alias'' (DataColumn.name column),
             text_element ''ordinal'' (str_nat i),
             text_element ''local-type'' (get_tableau_data_type (DataColumn.data_type column)),
             text_element ''aggregation''
               (if recommended_role column = Some Role_measure then ''Sum'' else ''Count''),
             text_element ''contains-null''
               (if null_count column > 0 then ''true'' else ''false'')])
        (enumerate 0 (DatasetSchema.columns schema))))"
proof -
  let ?f = "\<lambda>(i, column).
          Element ''metadata-record'' [(''class'', ''column'')] None
            [text_element ''remote-name'' (DataColumn.name column),
             text_element ''remote-type'' (get_tableau_data_type (DataColumn.data_type column)),
             text_element ''local-name'' (''['' @ DataColumn.name column @ '']''),
             text_element ''parent-name'' (''['' @ DataColumn.name column @ '']''),
             text_element ''remote-alias'' (DataColumn.name column),
             text_element ''ordinal'' (str_nat i),
             text_element ''local-type'' (get_tableau_data_type (DataColumn.data_type column)),
             text_element ''aggregation''
               (if recommended_role column = Some Role_measure then ''Sum'' else ''Count''),
             text_element ''contains-null''
               (if null_count column > 0 then ''true'' else ''false'')]"
  have "(\<lambda>(i, column) parent. add_column_metadata parent column i)
        = (\<lambda>x p. append_child p (?f x))"
    by (auto simp: add_column_metadata_def fun_eq_iff)
  then show ?thesis
    using assms by (simp add: metadata_records_def Let_def fold_append_child)
qed

text \<open>
  Claim C3 says that, for a schema with calculated fields, the metadata records are one
  per column followed by one per calculated field with ordinal len(columns) + j,
  contains-null "false" and a calculation child. The generator attempts exactly that,
  but reads each calculated field as a dictionary while the schema holds
  \<^verbatim>\<open>CalculatedFieldSpec\<close> models: the first subscript raises
  \<^verbatim>\<open>TypeError\<close>, no metadata-records element is produced and the generation
  fails.
\<close>

theorem C3_calculated_fields_raise:
  assumes "calculated_fields (dataset_schema request) \<noteq> []"
  shows "metadata_records (dataset_schema request)
           = Inl (Exn TypeError (quoted ''CalculatedFieldSpec'' @ '' object is not subscriptable''))
     \<and> \<not> success (fst (generate_workbook self w request fs))
     \<and> error_message (fst (generate_workbook self w request fs))
         = Some (quoted ''CalculatedFieldSpec'' @ '' object is not subscriptable'')"
proof -
  have m: "metadata_records (dataset_schema request)
           = Inl (Exn TypeError (quoted ''CalculatedFieldSpec'' @ '' object is not subscriptable''))"
    by (rule metadata_records_calculated [OF assms])
  then have "generate_workbook_try self w request fs
           = (Inl (Exn TypeError (quoted ''CalculatedFieldSpec'' @ '' object is not subscriptable'')),
              fs)"
    by (simp add: generate_workbook_try_def generate_workbook_xml_def workbook_tree_def
        create_datasource_element_def Let_def)
  with m show ?thesis
    by (simp add: generate_workbook_def)
qed

theorem C3_calculated_fields_raise_witness:
  "calculated_fields (dataset_schema (sales_request [profit_ratio] [bar_viz None None] Twbx True))
     \<noteq> []
   \<and> metadata_records (sales_schema [profit_ratio])
       = Inl (Exn TypeError (quoted ''CalculatedFieldSpec'' @ '' object is not subscriptable''))
   \<and> \<not> success (fst (generate_workbook generator calm_world
          (sales_request [profit_ratio] [bar_viz None None] Twbx True) Map.empty))"
proof -
  have h: "calculated_fields
             (dataset_schema (sales_request [profit_ratio] [bar_viz None None] Twbx True)) \<noteq> []"
    and d: "dataset_schema (sales_request [profit_ratio] [bar_viz None None] Twbx True)
            = sales_schema [profit_ratio]"
    by (simp_all add: sales_request_def sales_schema_def)
  from C3_calculated_fields_raise [OF h, of generator calm_world Map.empty] h d
  show ?thesis by simp
qed

subsection \<open>Packaged workbook\<close>










subsection \<open>Worksheet encodings\<close>

lemma aggregation_value_title:
  "aggregation_value a \<noteq> [] \<and> aggregation_value a \<noteq> ''none''
   \<and> str_title (aggregation_value a) = aggregation_title a"
  by (cases a)
     (simp_all add: str_title_def is_lower_def is_upper_def to_upper_def to_lower_def
        ascii_lowercase_def ascii_uppercase_def)

lemma add_encoding_aggregated:
  assumes "get datasource ''name'' = Some ds_name"
  shows "add_encoding parent shelf f datasource (map_option aggregation_value ag)
         = append_child parent (spec_encoding ds_name shelf f (spec_aggregation ag))"
  using assms aggregation_value_title
  by (cases ag) (simp_all add: add_encoding_def spec_encoding_def)

lemma add_encoding_plain:
  assumes "get datasource ''name'' = Some ds_name"
  shows "add_encoding parent shelf f datasource (Some ''none'')
         = append_child parent (spec_encoding ds_name shelf f [])"
  using assms by (simp add: add_encoding_def spec_encoding_def)

text \<open>
  Claim C6, as amended. The encodings of a worksheet are emitted in the fixed order: one
  "rows" encoding per y-axis field, carrying the capitalised aggregation type ("sum"
  gives "Sum") when the aggregation type is set; one "columns" encoding per x-axis field,
  never with an aggregation attribute; one "color" encoding if and only if the colour
  field is set to a non-empty string, never aggregated; one "size" encoding if and only
  if the size field is set to a non-empty string, aggregated like rows. Each column text
  is "[datasource name].[field name]". A field set to the empty string counts as not set,
  because the generator tests the field for truthiness.
\<close>

theorem C6_encodings_order:
  assumes "get datasource ''name'' = Some ds_name"
  shows "children (encodings_element viz datasource)
           = spec_encodings ds_name
               (viz\<lparr>color_field := unset_if_empty (color_field viz),
                    size_field := unset_if_empty (size_field viz)\<rparr>)
     \<and> (\<forall>a. str_title (aggregation_value a) = aggregation_title a)"
proof -
  have rows: "fold (\<lambda>field parent. add_encoding parent ''rows'' field datasource
                      (map_option aggregation_value (aggregation_type viz))) fs p
      = Element (tag p) (attrib p) (text_of p)
          (children p @ map (\<lambda>f. spec_encoding ds_name ''rows'' f
                                    (spec_aggregation (aggregation_type viz))) fs)" for fs p
    by (simp add: add_encoding_aggregated [OF assms] fold_append_child)
  have cols: "fold (\<lambda>field parent. add_encoding parent ''columns'' field datasource
                      (Some ''none'')) fs p
      = Element (tag p) (attrib p) (text_of p)
          (children p @ map (\<lambda>f. spec_encoding ds_name ''columns'' f []) fs)" for fs p
    by (simp add: add_encoding_plain [OF assms] fold_append_child)
  have colour: "add_encoding p ''color'' f datasource (Some ''none'')
      = Element (tag p) (attrib p) (text_of p)
          (children p @ [spec_encoding ds_name ''color'' f []])" for f p
    by (simp add: add_encoding_plain [OF assms] append_child_def)
  have sized: "add_encoding p ''size'' f datasource
                 (map_option aggregation_value (aggregation_type viz))
      = Element (tag p) (attrib p) (text_of p)
          (children p @ [spec_encoding ds_name ''size'' f
                           (spec_aggregation (aggregation_type viz))])" for f p
    by (simp add: add_encoding_aggregated [OF assms] append_child_def)
  have "children (encodings_element viz datasource)
           = spec_encodings ds_name
               (viz\<lparr>color_field := unset_if_empty (color_field viz),
                    size_field := unset_if_empty (size_field viz)\<rparr>)"
    by (cases "color_field viz"; cases "size_field viz")
       (simp_all add: encodings_element_def spec_encodings_def Let_def rows cols colour sized)
  then show ?thesis
    using aggregation_value_title by simp
qed

theorem C6_encodings_order_witness:
  "get (Element ''datasource'' [(''name'', ''federated.1A2B3C4D'')] None []) ''name''
     = Some ''federated.1A2B3C4D''
   \<and> children (encodings_element (bar_viz (Some ''Category'') (Some ''Profit''))
                 (Element ''datasource'' [(''name'', ''federated.1A2B3C4D'')] None []))
     = [Element ''rows'' [] None
          [Element ''column'' [(''aggregation'', ''Sum'')]
             (Some ''[federated.1A2B3C4D].[Sales]'') []],
        Element ''columns'' [] None
          [Element ''column'' [] (Some ''[federated.1A2B3C4D].[Region]'') []],
        Element ''color'' [] None
          [Element ''column'' [] (Some ''[federated.1A2B3C4D].[Category]'') []],
        Element ''size'' [] None
          [Element ''column'' [(''aggregation'', ''Sum'')]
             (Some ''[federated.1A2B3C4D].[Profit]'') []]]"
proof -
  have h: "get (Element ''datasource'' [(''name'', ''federated.1A2B3C4D'')] None []) ''name''
     = Some ''federated.1A2B3C4D''"
    by (simp add: get_def)
  from C6_encodings_order [OF h, of "bar_viz (Some ''Category'') (Some ''Profit'')"] h
  show ?thesis
    by (simp add: spec_encodings_def spec_encoding_def bar_viz_def)
qed

text \<open>
  The claim as first stated (a "color" encoding whenever the colour field is set) fails
  for a colour field set to the empty string: no "color" encoding is emitted.
\<close>

theorem C6_empty_colour_counterexample:
  "color_field (bar_viz (Some []) None) \<noteq> None
   \<and> map tag (children (encodings_element (bar_viz (Some []) None)
                 (Element ''datasource'' [(''name'', ''federated.1A2B3C4D'')] None [])))
       = [''rows'', ''columns'']
   \<and> children (encodings_element (bar_viz (Some []) None)
                 (Element ''datasource'' [(''name'', ''federated.1A2B3C4D'')] None []))
       \<noteq> spec_encodings ''federated.1A2B3C4D'' (bar_viz (Some []) None)"
  by (simp add: encodings_element_def spec_encodings_def spec_encoding_def bar_viz_def
      add_encoding_def append_child_def get_def Let_def)

subsection \<open>Construction-time validation\<close>

text \<open>
  Claim C9, as amended. The declared domain of the aggregation type of a visualization
  is sum, avg, count, min, max, or null, with default "sum": construction with one of
  the five strings stores that value, construction with null stores null, construction
  with the argument left out stores "sum", and construction with any other string, in
  particular "none", fails with a validation error at the field aggregation_type.
\<close>

theorem C9_aggregation_domain:
  "(\<exists>v. VisualizationSpec_init ct t xs ys cf sf cs labels legend Omitted = Inr v
        \<and> aggregation_type v = Some Agg_sum)
   \<and> (\<exists>v. VisualizationSpec_init ct t xs ys cf sf cs labels legend (Given None) = Inr v
        \<and> aggregation_type v = None)
   \<and> (\<forall>a. \<exists>v. VisualizationSpec_init ct t xs ys cf sf cs labels legend
                   (Given (Some (aggregation_value a))) = Inr v
               \<and> aggregation_type v = Some a
               \<and> chart_type v = ct \<and> title v = t \<and> x_axis v = xs \<and> y_axis v = ys)
   \<and> (\<forall>s. s \<notin> set [''sum'', ''avg'', ''count'', ''min'', ''max''] \<longrightarrow>
          VisualizationSpec_init ct t xs ys cf sf cs labels legend (Given (Some s))
            = Inl (ValidationError [''aggregation_type'']))
   \<and> VisualizationSpec_init ct t xs ys cf sf cs labels legend (Given (Some ''none''))
       = Inl (ValidationError [''aggregation_type''])"
proof -
  have "\<exists>v. VisualizationSpec_init ct t xs ys cf sf cs labels legend
                   (Given (Some (aggregation_value a))) = Inr v
               \<and> aggregation_type v = Some a
               \<and> chart_type v = ct \<and> title v = t \<and> x_axis v = xs \<and> y_axis v = ys" for a
    by (cases a) (simp_all add: VisualizationSpec_init_def)
  moreover have "VisualizationSpec_init ct t xs ys cf sf cs labels legend (Given (Some s))
            = Inl (ValidationError [''aggregation_type''])"
    if "s \<notin> set [''sum'', ''avg'', ''count'', ''min'', ''max'']" for s
    using that by (simp add: VisualizationSpec_init_def)
  moreover have "\<exists>v. VisualizationSpec_init ct t xs ys cf sf cs labels legend Omitted = Inr v
        \<and> aggregation_type v = Some Agg_sum"
    "\<exists>v. VisualizationSpec_init ct t xs ys cf sf cs labels legend (Given None) = Inr v
        \<and> aggregation_type v = None"
    "VisualizationSpec_init ct t xs ys cf sf cs labels legend (Given (Some ''none''))
       = Inl (ValidationError [''aggregation_type''])"
    by (simp_all add: VisualizationSpec_init_def)
  ultimately show ?thesis by blast
qed

theorem C9_aggregation_domain_witness:
  "VisualizationSpec_init BAR ''Sales by Region'' [''Region''] [''Sales''] Omitted Omitted
     Omitted Omitted Omitted (Given (Some ''average''))
     = Inl (ValidationError [''aggregation_type''])
   \<and> (\<exists>v. VisualizationSpec_init BAR ''Sales by Region'' [''Region''] [''Sales''] Omitted
             Omitted Omitted Omitted Omitted (Given (Some ''max'')) = Inr v
         \<and> aggregation_type v = Some Agg_max)
   \<and> (\<exists>v. VisualizationSpec_init BAR ''Sales by Region'' [''Region''] [''Sales''] Omitted
             Omitted Omitted Omitted Omitted Omitted = Inr v
         \<and> aggregation_type v = Some Agg_sum)"
proof -
  note c9 = C9_aggregation_domain
              [of BAR "''Sales by Region''" "[''Region'']" "[''Sales'']"
                  Omitted Omitted Omitted Omitted Omitted]
  have h: "''average'' \<notin> set [''sum'', ''avg'', ''count'', ''min'', ''max'']"
    by simp
  from c9 h have "VisualizationSpec_init BAR ''Sales by Region'' [''Region''] [''Sales'']
        Omitted Omitted Omitted Omitted Omitted (Given (Some ''average''))
     = Inl (ValidationError [''aggregation_type''])"
    by blast
  moreover from c9 have "\<exists>v. VisualizationSpec_init BAR ''Sales by Region'' [''Region'']
             [''Sales''] Omitted Omitted Omitted Omitted Omitted
             (Given (Some (aggregation_value Agg_max))) = Inr v
         \<and> aggregation_type v = Some Agg_max"
    by blast
  moreover from c9 have "\<exists>v. VisualizationSpec_init BAR ''Sales by Region'' [''Region'']
             [''Sales''] Omitted Omitted Omitted Omitted Omitted Omitted = Inr v
         \<and> aggregation_type v = Some Agg_sum"
    by blast
  ultimately show ?thesis by simp
qed

text \<open>
  The claim as first stated (construction with aggregation type "none" succeeds) fails:
  the construction raises a validation error at aggregation_type.
\<close>

theorem C9_none_rejected_counterexample:
  "VisualizationSpec_init BAR ''Sales by Region'' [''Region''] [''Sales''] Omitted Omitted
     Omitted Omitted Omitted (Given (Some ''none''))
   = Inl (ValidationError [''aggregation_type''])"
  by (simp add: VisualizationSpec_init_def)

text \<open>
  Claim C10, as amended. Constructing a ValidationResult never fails and stores the four
  fields as given, whatever they are; so an instance satisfies "is_valid is false if and
  only if errors is non-empty" exactly when it was built with is_valid equal to
  "errors is empty". The invariant is a convention for producers, not a property of the
  type.
\<close>

theorem C10_construction_unchecked:
  "ValidationResult_init v es ws ss
     = Inr \<lparr>is_valid = v, errors = es, ValidationResult.warnings = ws, suggestions = ss\<rparr>
   \<and> (ValidationResult_invariant
         \<lparr>is_valid = v, errors = es, ValidationResult.warnings = ws, suggestions = ss\<rparr>
        = (v = (es = [])))"
  by (auto simp: ValidationResult_init_def ValidationResult_invariant_def)

theorem C10_construction_unchecked_witness:
  "ValidationResult_init False [''Required column Date is missing''] [] []
     = Inr \<lparr>is_valid = False, errors = [''Required column Date is missing''],
            ValidationResult.warnings = [], suggestions = []\<rparr>
   \<and> ValidationResult_invariant
        \<lparr>is_valid = False, errors = [''Required column Date is missing''],
         ValidationResult.warnings = [], suggestions = []\<rparr>"
  using C10_construction_unchecked [of False "[''Required column Date is missing'']" "[]" "[]"]
  by simp

text \<open>
  The claim as first stated (every constructible value satisfies the invariant) fails for
  a value built with is_valid true and one error.
\<close>

theorem C10_valid_with_errors_counterexample:
  "ValidationResult_init True [''Required column Date is missing''] [] []
     = Inr \<lparr>is_valid = True, errors = [''Required column Date is missing''],
            ValidationResult.warnings = [], suggestions = []\<rparr>
   \<and> \<not> ValidationResult_invariant
        \<lparr>is_valid = True, errors = [''Required column Date is missing''],
         ValidationResult.warnings = [], suggestions = []\<rparr>"
  by (simp add: ValidationResult_init_def ValidationResult_invariant_def)

end
